theory Spec2Isabelle
  imports Main
begin

section \<open>The link tool of \<^verbatim>\<open>src/index.js\<close>\<close>

text \<open>
  The class of \<^verbatim>\<open>src/index.js\<close> is a block tool of a block editor: the user pastes
  a URL into an input, the tool asks a backend for the link's metadata and shows a
  preview. The theory embeds the class method by method. JavaScript is dynamically
  typed, so the data the tool stores and receives is a value of one datatype; a thrown
  exception is a result; the DOM nodes, the host's notifier, the console, the requests
  sent and the timers waiting are fields of one state record.
\<close>

subsection \<open>JavaScript values\<close>

text \<open>
  The values the tool handles are the saved block data and the backend's parsed JSON
  answer: \<^verbatim>\<open>undefined\<close>, \<^verbatim>\<open>null\<close>, booleans, numbers, strings and plain objects.
  Numbers are integers (the tool tests a number for truth and splices it into a string,
  nothing else); arrays and functions are not part of the model. An object is the list of
  its own properties; when a name occurs twice, the first entry is the property.
\<close>

datatype jsval =
    JUndefined
  | JNull
  | JBool bool
  | JNum int
  | JStr string
  | JObj "(string \<times> jsval) list"

datatype error = TypeError | SyntaxError | InvalidCharacterError | NotFoundError

datatype 'a outcome = Returns 'a | Throws error

text \<open>\<^verbatim>\<open>ToBoolean\<close>: what \<^verbatim>\<open>if (v)\<close>, \<^verbatim>\<open>v || w\<close> and \<^verbatim>\<open>v && w\<close> test.\<close>

fun truthy :: "jsval \<Rightarrow> bool" where
  "truthy JUndefined = False"
| "truthy JNull = False"
| "truthy (JBool b) = b"
| "truthy (JNum n) = (n \<noteq> 0)"
| "truthy (JStr s) = (s \<noteq> [])"
| "truthy (JObj kvs) = True"

text \<open>\<^verbatim>\<open>a || b\<close>, for a right operand whose evaluation cannot throw.\<close>

definition js_or :: "jsval \<Rightarrow> jsval \<Rightarrow> jsval" where
  "js_or a b = (if truthy a then a else b)"

text \<open>
  \<^verbatim>\<open>v.name\<close>. Reading a property of \<^verbatim>\<open>undefined\<close> or \<^verbatim>\<open>null\<close> throws a TypeError;
  an object yields its own property (\<open>field\<close>) or \<^verbatim>\<open>undefined\<close>. A boolean, a number
  or a string has what its prototype has. Of the names the tool reads (\<^verbatim>\<open>link\<close>,
  \<^verbatim>\<open>linkData\<close>, \<^verbatim>\<open>endpoints\<close>, \<^verbatim>\<open>byUrl\<close>, \<^verbatim>\<open>success\<close>, \<^verbatim>\<open>meta\<close>, \<^verbatim>\<open>image\<close>,
  \<^verbatim>\<open>url\<close>, \<^verbatim>\<open>title\<close>, \<^verbatim>\<open>description\<close>) the prototypes define one: \<^verbatim>\<open>link\<close>, an
  old method of strings. It is a function, which \<^typ>\<open>jsval\<close> does not have, so for a
  string given as \<^verbatim>\<open>data\<close> the model stores \<^verbatim>\<open>''\<close> as the link where the code stores
  that function. The theorems that state what is stored take an object for \<^verbatim>\<open>data\<close>.
\<close>

definition field :: "(string \<times> jsval) list \<Rightarrow> string \<Rightarrow> jsval" where
  "field kvs k = (case map_of kvs k of Some v \<Rightarrow> v | None \<Rightarrow> JUndefined)"

fun get_prop :: "jsval \<Rightarrow> string \<Rightarrow> jsval outcome" where
  "get_prop JUndefined k = Throws TypeError"
| "get_prop JNull k = Throws TypeError"
| "get_prop (JObj kvs) k = Returns (field kvs k)"
| "get_prop v k = Returns JUndefined"

text \<open>The decimal digits of a natural number.\<close>

definition digit_char :: "nat \<Rightarrow> char" where
  "digit_char n = (''0123456789'' ! (n mod 10))"

fun decimal :: "nat \<Rightarrow> string" where
  "decimal n = (if n < 10 then [digit_char n] else decimal (n div 10) @ [digit_char n])"

declare decimal.simps [simp del]

text \<open>\<^verbatim>\<open>Object.keys(v)\<close>: a TypeError on \<^verbatim>\<open>undefined\<close> and \<^verbatim>\<open>null\<close>, the own
  property names of an object, the indices of a string's characters, nothing for a
  boolean or a number. Only the number of keys is used.\<close>

fun object_keys :: "jsval \<Rightarrow> string list outcome" where
  "object_keys JUndefined = Throws TypeError"
| "object_keys JNull = Throws TypeError"
| "object_keys (JObj kvs) = Returns (remdups (map fst kvs))"
| "object_keys (JStr s) = Returns (map decimal [0..<length s])"
| "object_keys v = Returns []"

text \<open>
  \<^verbatim>\<open>'' + v\<close>, the conversion string concatenation applies to its operand. A plain object
  prints as \<^verbatim>\<open>[object Object]\<close>, unless it has an own property \<^verbatim>\<open>toString\<close>: that
  property hides \<^verbatim>\<open>Object.prototype.toString\<close>, it is not callable (no value of
  \<^typ>\<open>jsval\<close> is), and the conversion throws a TypeError.
\<close>

fun to_string :: "jsval \<Rightarrow> string outcome" where
  "to_string JUndefined = Returns ''undefined''"
| "to_string JNull = Returns ''null''"
| "to_string (JBool b) = Returns (if b then ''true'' else ''false'')"
| "to_string (JNum n) = Returns (if n < 0 then ''-'' @ decimal (nat (- n)) else decimal (nat n))"
| "to_string (JStr s) = Returns s"
| "to_string (JObj kvs) =
     (if ''toString'' \<in> fst ` set kvs then Throws TypeError else Returns ''[object Object]'')"

subsection \<open>DOM elements\<close>

text \<open>
  \<^verbatim>\<open>this.nodes\<close> has ten slots, \<^verbatim>\<open>null\<close> until \<^verbatim>\<open>render\<close> fills them. Every slot
  gets an element of its own from \<^verbatim>\<open>make\<close>, no two slots hold the same element, and
  the tool writes to the DOM but never reads from it. So an element is modelled as the
  value of its slot, and its children are the names of the slots they are held in. An
  element of an earlier \<^verbatim>\<open>render\<close> is no longer referenced by any slot and is not part
  of the state.

  Of an element the model keeps what the tool sets: tag, class list, children, the
  \<^verbatim>\<open>paste\<close> listener, and the last value assigned to \<^verbatim>\<open>placeholder\<close>,
  \<^verbatim>\<open>innerHTML\<close>, \<^verbatim>\<open>style.backgroundImage\<close> and the attribute \<^verbatim>\<open>href\<close>
  (\<open>None\<close>: never assigned). The values are kept as assigned; what the DOM makes of
  them is the browser's business.
\<close>

datatype node =
    Wrapper | Container | Progress | Input | InputHolder
  | LinkContent | LinkImage | LinkTitle | LinkDescription | LinkText

record element =
  tagName :: string
  classList :: "string list"
  childNodes :: "node list"
  listeners :: "string list"
  placeholder :: "string option"
  innerHTML :: "jsval option"
  backgroundImage :: "string option"
  href :: "jsval option"

subsection \<open>The tool's state\<close>

text \<open>
  The fields of an instance: the two class names the tool reads from the host
  (\<^verbatim>\<open>api.styles.block\<close>, \<^verbatim>\<open>api.styles.input\<close>), \<^verbatim>\<open>config.endpoints\<close>, the node
  slots and the two fields of \<^verbatim>\<open>_data\<close>. The rest of the record is what the tool
  does to its surroundings: the notifications shown through \<^verbatim>\<open>api.notifier.show\<close>
  (message and style), the lines written with \<^verbatim>\<open>console.log\<close>, the requests sent with
  \<^verbatim>\<open>ajax.get\<close> (address and the \<^verbatim>\<open>url\<close> parameter), the 500 ms timers of
  \<^verbatim>\<open>hideProgress\<close> still waiting (oldest first, each with what is chained on its
  promise), and the errors that ended in a rejected promise nobody handles.
\<close>

datatype caught = Rejection jsval | Exception error

datatype log_entry =
    FetchingFailed jsval  \<comment> \<open>\<^verbatim>\<open>'Link Tool: data fetching because of'\<close>, then the response's JSON text\<close>
  | ErrorLogged caught    \<comment> \<open>\<^verbatim>\<open>'error'\<close>, then the error\<close>

datatype callback =
    NoCallback            \<comment> \<open>nothing is chained on the promise\<close>
  | ShowPreview jsval     \<comment> \<open>remove the input holder, then \<^verbatim>\<open>showLinkPreview(metaData)\<close>\<close>

record tool =
  api_styles_block :: string
  api_styles_input :: string
  config_endpoints :: jsval
  nodes :: "node \<Rightarrow> element option"
  link :: jsval
  linkData :: jsval
  notifications :: "(string \<times> string) list"
  console :: "log_entry list"
  requests :: "(jsval \<times> string) list"
  timers :: "callback list"
  unhandled :: "error list"

text \<open>
  A method takes the state and returns its result, or the exception it throws, with the
  state as it is at that moment: what was assigned before a \<^verbatim>\<open>throw\<close> stays assigned.
\<close>

type_synonym 'a meth = "tool \<Rightarrow> 'a outcome \<times> tool"

definition ret :: "'a \<Rightarrow> 'a meth" where
  "ret x s = (Returns x, s)"

definition compute :: "'a outcome \<Rightarrow> 'a meth" where
  "compute r s = (r, s)"

definition read :: "(tool \<Rightarrow> 'a) \<Rightarrow> 'a meth" where
  "read g s = (Returns (g s), s)"

definition modify :: "(tool \<Rightarrow> tool) \<Rightarrow> unit meth" where
  "modify g s = (Returns (), g s)"

definition and_then :: "'a meth \<Rightarrow> ('a \<Rightarrow> 'b meth) \<Rightarrow> 'b meth" where
  "and_then m f s = (case m s of (Throws e, s') \<Rightarrow> (Throws e, s') | (Returns x, s') \<Rightarrow> f x s')"

text \<open>\<^verbatim>\<open>this.nodes.n = el\<close>.\<close>

definition assign :: "node \<Rightarrow> element \<Rightarrow> unit meth" where
  "assign n el = modify (\<lambda>s. s\<lparr>nodes := (nodes s)(n \<mapsto> el)\<rparr>)"

text \<open>A write to the element in slot \<open>n\<close>, or a call of one of its methods: a TypeError
  when the slot is \<^verbatim>\<open>null\<close>.\<close>

definition update :: "node \<Rightarrow> (element \<Rightarrow> element) \<Rightarrow> unit meth" where
  "update n f s =
     (case nodes s n of
        None \<Rightarrow> (Throws TypeError, s)
      | Some el \<Rightarrow> (Returns (), s\<lparr>nodes := (nodes s)(n \<mapsto> f el)\<rparr>))"

subsection \<open>Making elements\<close>

text \<open>\<^verbatim>\<open>document.createElement(tagName)\<close>.\<close>

definition createElement :: "string \<Rightarrow> element" where
  "createElement t =
     \<lparr>tagName = t, classList = [], childNodes = [], listeners = [], placeholder = None,
      innerHTML = None, backgroundImage = None, href = None\<rparr>"

text \<open>
  \<^verbatim>\<open>el.classList.add(...tokens)\<close>: the DOM first checks every token, throwing a
  SyntaxError for the empty string and an InvalidCharacterError for a token with ASCII
  white space, and then appends the tokens the list does not hold yet.
\<close>

definition is_space :: "char \<Rightarrow> bool" where
  "is_space c = (c \<in> set [CHR 0x09, CHR 0x0A, CHR 0x0C, CHR 0x0D, CHR 0x20])"

fun check_tokens :: "string list \<Rightarrow> unit outcome" where
  "check_tokens [] = Returns ()"
| "check_tokens (t # ts) =
     (if t = [] then Throws SyntaxError
      else if list_ex is_space t then Throws InvalidCharacterError
      else check_tokens ts)"

text \<open>The strings that pass the check.\<close>

definition class_token :: "string \<Rightarrow> bool" where
  "class_token t = (t \<noteq> [] \<and> \<not> list_ex is_space t)"

fun append_tokens :: "string list \<Rightarrow> string list \<Rightarrow> string list" where
  "append_tokens cl [] = cl"
| "append_tokens cl (t # ts) = append_tokens (if t \<in> set cl then cl else cl @ [t]) ts"

definition classList_add :: "string list \<Rightarrow> element \<Rightarrow> element outcome" where
  "classList_add ts el =
     (case check_tokens ts of
        Throws e \<Rightarrow> Throws e
      | Returns _ \<Rightarrow> Returns (el\<lparr>classList := append_tokens (classList el) ts\<rparr>))"

text \<open>
  \<^verbatim>\<open>make(tagName, classNames = null, attributes = {})\<close>. Every call of the class passes a
  string or an array of strings for \<^verbatim>\<open>classNames\<close> and nothing for \<^verbatim>\<open>attributes\<close>, so
  the loop over the attributes does nothing and is left out.
\<close>

datatype class_names = ClassName string | ClassNames "string list"

definition make :: "string \<Rightarrow> class_names \<Rightarrow> element outcome" where
  "make t classNames =
     (let el = createElement t in
      case classNames of
        ClassNames ts \<Rightarrow> classList_add ts el
      | ClassName c \<Rightarrow> if c \<noteq> [] then classList_add [c] el else Returns el)"

subsection \<open>Construction, \<^verbatim>\<open>data\<close> and \<^verbatim>\<open>save\<close>\<close>

text \<open>\<^verbatim>\<open>set data(data)\<close>: two assignments, each reading a property of \<^verbatim>\<open>data\<close>.\<close>

definition set_data :: "jsval \<Rightarrow> unit meth" where
  "set_data d =
     and_then (compute (get_prop d ''link'')) (\<lambda>l.
     and_then (modify (\<lambda>s. s\<lparr>link := js_or l (JStr [])\<rparr>)) (\<lambda>_.
     and_then (compute (get_prop d ''linkData'')) (\<lambda>ld.
     modify (\<lambda>s. s\<lparr>linkData := js_or ld (JObj [])\<rparr>))))"

text \<open>
  \<^verbatim>\<open>get data()\<close> returns \<^verbatim>\<open>this._data\<close>, the object with the fields \<^verbatim>\<open>link\<close> and
  \<^verbatim>\<open>linkData\<close>. The caller gets the object itself, not a copy; the model returns its
  value.
\<close>

definition get_data :: "jsval meth" where
  "get_data = read (\<lambda>s. JObj [(''link'', link s), (''linkData'', linkData s)])"

text \<open>\<^verbatim>\<open>save()\<close> returns \<^verbatim>\<open>this.data\<close>.\<close>

definition save :: "jsval meth" where
  "save = get_data"

text \<open>
  \<^verbatim>\<open>constructor({data, config, api})\<close>: the first property read is
  \<^verbatim>\<open>config.endpoints\<close>; the slots start as \<^verbatim>\<open>null\<close> and \<^verbatim>\<open>_data\<close> as
  \<^verbatim>\<open>{link: '', linkData: {}}\<close> (the state \<open>blank\<close>, in surroundings where nothing has
  happened yet), and then \<^verbatim>\<open>data\<close> goes through the setter. A constructor that throws
  yields no instance.
\<close>

definition blank :: "string \<Rightarrow> string \<Rightarrow> jsval \<Rightarrow> tool" where
  "blank block input endpoints =
     \<lparr>api_styles_block = block, api_styles_input = input, config_endpoints = endpoints,
      nodes = (\<lambda>n. None), link = JStr [], linkData = JObj [],
      notifications = [], console = [], requests = [], timers = [], unhandled = []\<rparr>"

definition construct :: "jsval \<Rightarrow> jsval \<Rightarrow> string \<Rightarrow> string \<Rightarrow> tool outcome" where
  "construct d config block input =
     (case get_prop config ''endpoints'' of
        Throws e \<Rightarrow> Throws e
      | Returns endpoints \<Rightarrow>
          (case set_data d (blank block input (js_or endpoints (JStr []))) of
             (Throws e, s) \<Rightarrow> Throws e
           | (Returns u, s) \<Rightarrow> Returns s))"

subsection \<open>Rendering\<close>

text \<open>The class names of the getter \<^verbatim>\<open>CSS\<close> that the tool adds and removes later.\<close>

definition progressLoading :: string where
  "progressLoading = ''link-tool__progress--loading''"

definition progressLoaded :: string where
  "progressLoaded = ''link-tool__progress--loaded''"

text \<open>
  \<^verbatim>\<open>parent.appendChild(child)\<close>, \<^verbatim>\<open>parent.insertBefore(child, ref)\<close> (a NotFoundError when
  \<open>ref\<close> is not a child of \<open>parent\<close>) and \<^verbatim>\<open>child.remove()\<close>. Where the tool appends or
  inserts, the child is an element just made, which has no parent to leave.
\<close>

definition appendChild :: "node \<Rightarrow> element \<Rightarrow> element" where
  "appendChild c el = el\<lparr>childNodes := childNodes el @ [c]\<rparr>"

fun insert_before :: "node \<Rightarrow> node \<Rightarrow> node list \<Rightarrow> node list" where
  "insert_before c r [] = []"
| "insert_before c r (x # xs) = (if x = r then c # x # xs else x # insert_before c r xs)"

definition insertBefore :: "node \<Rightarrow> node \<Rightarrow> node \<Rightarrow> unit meth" where
  "insertBefore p c r s =
     (case nodes s p of
        None \<Rightarrow> (Throws TypeError, s)
      | Some el \<Rightarrow>
          if r \<in> set (childNodes el)
          then (Returns (),
                s\<lparr>nodes := (nodes s)(p \<mapsto> el\<lparr>childNodes := insert_before c r (childNodes el)\<rparr>)\<rparr>)
          else (Throws NotFoundError, s))"

definition detach :: "node \<Rightarrow> element \<Rightarrow> element" where
  "detach c el = el\<lparr>childNodes := removeAll c (childNodes el)\<rparr>"

definition remove :: "node \<Rightarrow> unit meth" where
  "remove c s =
     (case nodes s c of
        None \<Rightarrow> (Throws TypeError, s)
      | Some el \<Rightarrow> (Returns (), s\<lparr>nodes := (\<lambda>n. map_option (detach c) (nodes s n))\<rparr>))"

text \<open>\<^verbatim>\<open>makeInputHolder()\<close>: the holder is returned, the progress label and the input are
  stored in their slots on the way.\<close>

definition makeInputHolder :: "element meth" where
  "makeInputHolder =
     and_then (compute (make ''div'' (ClassName ''link-tool__input-holder''))) (\<lambda>inputHolder.
     and_then (compute (make ''label'' (ClassName ''link-tool__progress''))) (\<lambda>progress.
     and_then (assign Progress progress) (\<lambda>_.
     and_then (read api_styles_input) (\<lambda>input_class.
     and_then (compute (make ''input'' (ClassNames [input_class, ''link-tool__input'']))) (\<lambda>input.
     and_then (assign Input input) (\<lambda>_.
     and_then (update Input (\<lambda>el. el\<lparr>placeholder := Some ''Paste Link...''\<rparr>)) (\<lambda>_.
     and_then (update Input (\<lambda>el. el\<lparr>listeners := listeners el @ [''paste'']\<rparr>)) (\<lambda>_.
     ret (appendChild Input (appendChild Progress inputHolder))))))))))"

text \<open>\<^verbatim>\<open>prepareLinkPreview()\<close>.\<close>

definition prepareLinkPreview :: "element meth" where
  "prepareLinkPreview =
     and_then (compute (make ''div'' (ClassName ''link-tool__content''))) (\<lambda>holder.
     and_then (compute (make ''div'' (ClassName ''link-tool__image''))) (\<lambda>linkImage.
     and_then (assign LinkImage linkImage) (\<lambda>_.
     and_then (compute (make ''h2'' (ClassName ''link-tool__title''))) (\<lambda>linkTitle.
     and_then (assign LinkTitle linkTitle) (\<lambda>_.
     and_then (compute (make ''p'' (ClassName ''link-tool__description''))) (\<lambda>linkDescription.
     and_then (assign LinkDescription linkDescription) (\<lambda>_.
     and_then (compute (make ''a'' (ClassName ''link-tool__anchor''))) (\<lambda>linkText.
     and_then (assign LinkText linkText) (\<lambda>_.
     ret (appendChild LinkText (appendChild LinkDescription
           (appendChild LinkTitle (appendChild LinkImage holder)))))))))))))"

text \<open>
  \<^verbatim>\<open>showLinkPreview(meta)\<close>: three guarded assignments and two unguarded ones. The anchor
  gets \<^verbatim>\<open>this._data.link\<close> as it is when the method runs. \<open>background_of\<close> is the
  right-hand side \<^verbatim>\<open>'url(' + meta.image.url + ')'\<close> of the first.
\<close>

definition background_of :: "jsval \<Rightarrow> string outcome" where
  "background_of img =
     (case get_prop img ''url'' of
        Throws e \<Rightarrow> Throws e
      | Returns url \<Rightarrow>
          (case to_string url of
             Throws e \<Rightarrow> Throws e
           | Returns u \<Rightarrow> Returns (''url('' @ u @ '')'')))"

definition showLinkPreview :: "jsval \<Rightarrow> unit meth" where
  "showLinkPreview meta =
     and_then (compute (get_prop meta ''image'')) (\<lambda>img.
     and_then
       (if truthy img
        then and_then (compute (background_of img)) (\<lambda>bg.
             update LinkImage (\<lambda>el. el\<lparr>backgroundImage := Some bg\<rparr>))
        else ret ()) (\<lambda>_.
     and_then (compute (get_prop meta ''title'')) (\<lambda>title.
     and_then
       (if truthy title then update LinkTitle (\<lambda>el. el\<lparr>innerHTML := Some title\<rparr>) else ret ()) (\<lambda>_.
     and_then (compute (get_prop meta ''description'')) (\<lambda>description.
     and_then
       (if truthy description
        then update LinkDescription (\<lambda>el. el\<lparr>innerHTML := Some description\<rparr>)
        else ret ()) (\<lambda>_.
     and_then (read link) (\<lambda>l.
     and_then (update LinkText (\<lambda>el. el\<lparr>innerHTML := Some l\<rparr>)) (\<lambda>_.
     and_then (read link) (\<lambda>l.
     update LinkText (\<lambda>el. el\<lparr>href := Some l\<rparr>))))))))))"

text \<open>
  \<^verbatim>\<open>render()\<close>. The test \<^verbatim>\<open>Object.keys(this._data.linkData).length\<close> is true when
  there is a key. The method returns \<^verbatim>\<open>this.nodes.wrapper\<close>, which holds an element by
  then.
\<close>

definition render :: "element meth" where
  "render =
     and_then (read api_styles_block) (\<lambda>block_class.
     and_then (compute (make ''div'' (ClassName block_class))) (\<lambda>wrapper.
     and_then (assign Wrapper wrapper) (\<lambda>_.
     and_then (compute (make ''div'' (ClassName ''link-tool''))) (\<lambda>container.
     and_then (assign Container container) (\<lambda>_.
     and_then makeInputHolder (\<lambda>inputHolder.
     and_then (assign InputHolder inputHolder) (\<lambda>_.
     and_then prepareLinkPreview (\<lambda>linkContent.
     and_then (assign LinkContent linkContent) (\<lambda>_.
     and_then (update Container (appendChild LinkContent)) (\<lambda>_.
     and_then (read linkData) (\<lambda>d.
     and_then (compute (object_keys d)) (\<lambda>keys.
     and_then
       (if length keys \<noteq> 0
        then and_then (read linkData) showLinkPreview
        else insertBefore Container InputHolder LinkContent) (\<lambda>_.
     and_then (update Wrapper (appendChild Container)) (\<lambda>_.
     and_then (read (\<lambda>s. nodes s Wrapper)) (\<lambda>w.
     case w of None \<Rightarrow> compute (Throws TypeError) | Some el \<Rightarrow> ret el)))))))))))))))"

subsection \<open>Pasting a link and fetching its data\<close>

text \<open>\<^verbatim>\<open>showProgress()\<close>.\<close>

definition showProgress :: "unit meth" where
  "showProgress =
     update Progress (\<lambda>el. el\<lparr>classList := append_tokens (classList el) [progressLoading]\<rparr>)"

text \<open>
  \<^verbatim>\<open>hideProgress()\<close> returns a promise. Its executor runs at once: it swaps the two
  classes of the progress label and starts a 500 ms timer that resolves the promise. An
  exception in the executor (the slot is \<^verbatim>\<open>null\<close>) does not leave the method: the
  promise is rejected, no timer is started, and since neither caller handles a
  rejection, it ends unhandled. The promise has no use but the callback chained on it,
  which the model passes in: \<open>ShowPreview\<close> for \<^verbatim>\<open>onFetch\<close>, \<open>NoCallback\<close> for
  \<^verbatim>\<open>fetchingFailed\<close>.
\<close>

definition hideProgress :: "callback \<Rightarrow> tool \<Rightarrow> tool" where
  "hideProgress cb s =
     (case nodes s Progress of
        None \<Rightarrow> s\<lparr>unhandled := unhandled s @ [TypeError]\<rparr>
      | Some el \<Rightarrow>
          s\<lparr>nodes := (nodes s)(Progress \<mapsto>
                 el\<lparr>classList := append_tokens (removeAll progressLoading (classList el))
                                   [progressLoaded]\<rparr>),
            timers := timers s @ [cb]\<rparr>)"

text \<open>
  The timer that has waited longest fires (all wait 500 ms): the promise is resolved and
  the callback chained on it runs. An exception in the callback rejects a promise nobody
  handles; what the callback did before it stays done.
\<close>

definition timer_fires :: "tool \<Rightarrow> tool" where
  "timer_fires s =
     (case timers s of
        [] \<Rightarrow> s
      | NoCallback # rest \<Rightarrow> s\<lparr>timers := rest\<rparr>
      | ShowPreview metaData # rest \<Rightarrow>
          (case and_then (remove InputHolder) (\<lambda>_. showLinkPreview metaData) (s\<lparr>timers := rest\<rparr>) of
             (Throws e, s') \<Rightarrow> s'\<lparr>unhandled := unhandled s' @ [e]\<rparr>
           | (Returns u, s') \<Rightarrow> s'))"

text \<open>\<^verbatim>\<open>fetchingFailed(errorText)\<close>; \<open>response\<close> is the response the text was made from.\<close>

definition fetchingFailed :: "jsval \<Rightarrow> unit meth" where
  "fetchingFailed response =
     and_then (modify (\<lambda>s. s\<lparr>console := console s @ [FetchingFailed response]\<rparr>)) (\<lambda>_.
     and_then (modify (\<lambda>s. s\<lparr>notifications :=
                 notifications s @ [(''Can not get this link data, try another'', ''error'')]\<rparr>)) (\<lambda>_.
     modify (hideProgress NoCallback)))"

text \<open>\<^verbatim>\<open>onFetch(response)\<close>. Its test is the value of \<^verbatim>\<open>response && response.success\<close>
  (\<open>success_flag\<close>): the property is read only of a truthy response.\<close>

definition success_flag :: "jsval \<Rightarrow> jsval outcome" where
  "success_flag response =
     (if truthy response then get_prop response ''success'' else Returns response)"

definition onFetch :: "jsval \<Rightarrow> unit meth" where
  "onFetch response =
     and_then (compute (success_flag response)) (\<lambda>ok.
     if truthy ok
     then and_then (compute (get_prop response ''meta'')) (\<lambda>metaData.
          and_then (modify (\<lambda>s. s\<lparr>linkData := metaData\<rparr>)) (\<lambda>_.
          modify (hideProgress (ShowPreview metaData))))
     else fetchingFailed response)"

text \<open>
  \<^verbatim>\<open>uploadByUrl(url)\<close> up to the call of \<^verbatim>\<open>ajax.get\<close>, which returns a promise at once.
\<close>

definition uploadByUrl :: "string \<Rightarrow> unit meth" where
  "uploadByUrl url =
     and_then showProgress (\<lambda>_.
     and_then (modify (\<lambda>s. s\<lparr>link := JStr url\<rparr>)) (\<lambda>_.
     and_then (read config_endpoints) (\<lambda>endpoints.
     and_then (compute (get_prop endpoints ''byUrl'')) (\<lambda>byUrl.
     modify (\<lambda>s. s\<lparr>requests := requests s @ [(byUrl, url)]\<rparr>)))))"

text \<open>
  The two ways the request ends, \<^verbatim>\<open>.then((response) => this.onFetch(response))\<close> and
  \<^verbatim>\<open>.catch((error) => console.log('error', error))\<close>. The handler of \<^verbatim>\<open>catch\<close> also
  gets what \<^verbatim>\<open>onFetch\<close> throws.
\<close>

definition fetch_resolved :: "jsval \<Rightarrow> tool \<Rightarrow> tool" where
  "fetch_resolved response s =
     (case onFetch response s of
        (Throws e, s') \<Rightarrow> s'\<lparr>console := console s' @ [ErrorLogged (Exception e)]\<rparr>
      | (Returns u, s') \<Rightarrow> s')"

definition fetch_rejected :: "jsval \<Rightarrow> tool \<Rightarrow> tool" where
  "fetch_rejected err s = s\<lparr>console := console s @ [ErrorLogged (Rejection err)]\<rparr>"

text \<open>
  An event of type \<open>ev\<close> at the element in slot \<open>n\<close>, with the clipboard's text \<open>text\<close>:
  the listener of \<^verbatim>\<open>makeInputHolder\<close> runs if the element has it for that type.
\<close>

definition dispatch :: "node \<Rightarrow> string \<Rightarrow> string \<Rightarrow> unit meth" where
  "dispatch n ev text s =
     (case nodes s n of
        None \<Rightarrow> (Returns (), s)
      | Some el \<Rightarrow> if ev \<in> set (listeners el) then uploadByUrl text s else (Returns (), s))"

subsection \<open>The life of a tool\<close>

text \<open>
  What can happen to an instance: the host calls \<^verbatim>\<open>render\<close>, assigns to \<^verbatim>\<open>data\<close> or
  calls \<^verbatim>\<open>save\<close>; an event reaches one of the tool's elements; a request ends, with a
  response or with an error; a timer fires. When a call of the host throws, the state
  stays as it is at that moment and the host goes on. \<open>run\<close> applies a sequence of
  events, the first one first.
\<close>

datatype event =
    Render
  | SetData jsval
  | Save
  | Fired node string string
  | Resolved jsval
  | Rejected jsval
  | TimerFired

fun step :: "event \<Rightarrow> tool \<Rightarrow> tool" where
  "step Render s = snd (render s)"
| "step (SetData d) s = snd (set_data d s)"
| "step Save s = snd (save s)"
| "step (Fired n ev text) s = snd (dispatch n ev text s)"
| "step (Resolved response) s = fetch_resolved response s"
| "step (Rejected err) s = fetch_rejected err s"
| "step TimerFired s = timer_fires s"

fun run :: "event list \<Rightarrow> tool \<Rightarrow> tool" where
  "run [] s = s"
| "run (e # es) s = run es (step e s)"

text \<open>
  Two notions for the proofs. A method preserves a property of states when the state it
  ends in, returning or throwing, has the property whenever the state it started in had
  it. A state is wired when the only listener on its elements is the \<^verbatim>\<open>paste\<close> listener
  of the input, an input comes with a progress label, and \<^verbatim>\<open>config.endpoints\<close> is neither
  \<^verbatim>\<open>undefined\<close> nor \<^verbatim>\<open>null\<close>.
\<close>

definition preserves :: "(tool \<Rightarrow> bool) \<Rightarrow> 'a meth \<Rightarrow> bool" where
  "preserves P m = (\<forall>s. P s \<longrightarrow> P (snd (m s)))"

definition listening :: "tool \<Rightarrow> node \<Rightarrow> string list option" where
  "listening s n = map_option listeners (nodes s n)"

definition wired :: "tool \<Rightarrow> bool" where
  "wired s =
     ((\<forall>n. listening s n = None \<or> listening s n = Some (if n = Input then [''paste''] else []))
      \<and> (listening s Input \<noteq> None \<longrightarrow> listening s Progress \<noteq> None)
      \<and> config_endpoints s \<noteq> JUndefined \<and> config_endpoints s \<noteq> JNull)"

section \<open>Properties\<close>

subsection \<open>Running a method step by step\<close>

lemma and_then_compute:
  "and_then (compute (Returns x)) f s = f x s"
  "and_then (compute (Throws e)) f s = (Throws e, s)"
  by (simp_all add: and_then_def compute_def)

lemma and_then_ret: "and_then (ret x) f s = f x s"
  by (simp add: and_then_def ret_def)

lemma and_then_read: "and_then (read g) f s = f (g s) s"
  by (simp add: and_then_def read_def)

lemma and_then_modify: "and_then (modify g) f s = f () (g s)"
  by (simp add: and_then_def modify_def)

lemma and_then_assign:
  "and_then (assign n el) f s = f () (s\<lparr>nodes := (nodes s)(n \<mapsto> el)\<rparr>)"
  by (simp add: and_then_modify assign_def)

lemma and_then_update:
  "and_then (update n g) f s =
     (case nodes s n of
        None \<Rightarrow> (Throws TypeError, s)
      | Some el \<Rightarrow> f () (s\<lparr>nodes := (nodes s)(n \<mapsto> g el)\<rparr>))"
  by (simp add: and_then_def update_def split: option.split)

lemma and_then_insertBefore:
  "and_then (insertBefore p c r) f s =
     (case nodes s p of
        None \<Rightarrow> (Throws TypeError, s)
      | Some el \<Rightarrow>
          if r \<in> set (childNodes el)
          then f () (s\<lparr>nodes := (nodes s)(p \<mapsto> el\<lparr>childNodes := insert_before c r (childNodes el)\<rparr>)\<rparr>)
          else (Throws NotFoundError, s))"
  by (simp add: and_then_def insertBefore_def split: option.split)

lemma and_then_remove:
  "and_then (remove c) f s =
     (case nodes s c of
        None \<Rightarrow> (Throws TypeError, s)
      | Some el \<Rightarrow> f () (s\<lparr>nodes := (\<lambda>n. map_option (detach c) (nodes s n))\<rparr>))"
  by (simp add: and_then_def remove_def split: option.split)

lemma and_then_assoc:
  "and_then (and_then m f) g = and_then m (\<lambda>x. and_then (f x) g)"
  by (auto simp add: and_then_def fun_eq_iff split: prod.split outcome.split)

lemma and_then_if:
  "and_then (if b then m else m') f s = (if b then and_then m f s else and_then m' f s)"
  by simp

lemma and_then_run: "m s = (Returns x, s') \<Longrightarrow> and_then m f s = f x s'"
  by (simp add: and_then_def)

lemmas run_simps =
  and_then_compute and_then_ret and_then_read and_then_modify and_then_assign and_then_update
  and_then_insertBefore and_then_remove and_then_assoc and_then_if
  ret_def compute_def read_def modify_def update_def

lemma get_prop_throws: "get_prop v k = Throws e \<Longrightarrow> e = TypeError"
  by (cases v) auto

lemma get_prop_truthy: "truthy v \<Longrightarrow> \<exists>x. get_prop v k = Returns x"
  by (cases v) auto

subsection \<open>Elements made with the tool's own class names\<close>

lemma make_token:
  "class_token c \<Longrightarrow> make t (ClassName c) = Returns ((createElement t)\<lparr>classList := [c]\<rparr>)"
  by (simp add: make_def class_token_def classList_add_def createElement_def)

lemma make_empty: "make t (ClassName []) = Returns (createElement t)"
  by (simp add: make_def)

lemma make_tokens:
  "class_token a \<Longrightarrow> class_token b \<Longrightarrow>
   make t (ClassNames [a, b]) =
     Returns ((createElement t)\<lparr>classList := (if a = b then [a] else [a, b])\<rparr>)"
  by (simp add: make_def class_token_def classList_add_def createElement_def)

lemma class_tokens:
  "class_token ''link-tool''"
  "class_token ''link-tool__input''"
  "class_token ''link-tool__input-holder''"
  "class_token ''link-tool__content''"
  "class_token ''link-tool__image''"
  "class_token ''link-tool__title''"
  "class_token ''link-tool__description''"
  "class_token ''link-tool__anchor''"
  "class_token ''link-tool__progress''"
  by (simp_all add: class_token_def is_space_def)

lemmas make_simps = make_token make_empty make_tokens class_tokens createElement_def appendChild_def


lemma makeInputHolder_run:
  assumes "class_token (api_styles_input s)"
  shows "makeInputHolder s =
     (Returns ((createElement ''div'')\<lparr>classList := [''link-tool__input-holder''],
                                      childNodes := [Progress, Input]\<rparr>),
      s\<lparr>nodes := (nodes s)
         (Progress \<mapsto> (createElement ''label'')\<lparr>classList := [''link-tool__progress'']\<rparr>,
          Input \<mapsto> (createElement ''input'')
             \<lparr>classList := (if api_styles_input s = ''link-tool__input'' then [''link-tool__input'']
                             else [api_styles_input s, ''link-tool__input'']),
              listeners := [''paste''], placeholder := Some ''Paste Link...''\<rparr>)\<rparr>)"
  using assms
  by (simp add: makeInputHolder_def run_simps make_simps)

lemma prepareLinkPreview_run:
  "prepareLinkPreview s =
     (Returns ((createElement ''div'')\<lparr>classList := [''link-tool__content''],
                childNodes := [LinkImage, LinkTitle, LinkDescription, LinkText]\<rparr>),
      s\<lparr>nodes := (nodes s)
         (LinkImage \<mapsto> (createElement ''div'')\<lparr>classList := [''link-tool__image'']\<rparr>,
          LinkTitle \<mapsto> (createElement ''h2'')\<lparr>classList := [''link-tool__title'']\<rparr>,
          LinkDescription \<mapsto> (createElement ''p'')\<lparr>classList := [''link-tool__description'']\<rparr>,
          LinkText \<mapsto> (createElement ''a'')\<lparr>classList := [''link-tool__anchor'']\<rparr>)\<rparr>)"
  by (simp add: prepareLinkPreview_def run_simps make_simps)

lemma showLinkPreview_run:
  assumes slots: "nodes s LinkImage = Some im" "nodes s LinkTitle = Some ti"
                 "nodes s LinkDescription = Some de" "nodes s LinkText = Some a"
      and bg: "truthy (field kvs ''image'') \<Longrightarrow> background_of (field kvs ''image'') = Returns bg"
  shows "showLinkPreview (JObj kvs) s =
     (Returns (),
      s\<lparr>nodes := (nodes s)
         (LinkImage \<mapsto> (if truthy (field kvs ''image'') then im\<lparr>backgroundImage := Some bg\<rparr> else im),
          LinkTitle \<mapsto> (if truthy (field kvs ''title'')
                         then ti\<lparr>innerHTML := Some (field kvs ''title'')\<rparr> else ti),
          LinkDescription \<mapsto> (if truthy (field kvs ''description'')
                         then de\<lparr>innerHTML := Some (field kvs ''description'')\<rparr> else de),
          LinkText \<mapsto> a\<lparr>innerHTML := Some (link s), href := Some (link s)\<rparr>)\<rparr>)"
  using slots bg
  by (simp add: showLinkPreview_def run_simps map_upd_triv fun_upd_twist)

subsection \<open>Saved data: construction, the setter and \<^verbatim>\<open>save\<close>\<close>

text \<open>
  Claim C2. For every string \<open>L\<close> and every object \<open>D\<close>, constructing the tool with the
  data \<^verbatim>\<open>{link: L, linkData: D}\<close> (and any configuration object) succeeds, and \<^verbatim>\<open>save()\<close>
  then returns exactly \<^verbatim>\<open>{link: L, linkData: D}\<close>, leaving the state as it is.
\<close>

theorem save_after_construct:
  "\<exists>s. construct (JObj [(''link'', JStr L), (''linkData'', JObj D)]) (JObj c) block input = Returns s
     \<and> save s = (Returns (JObj [(''link'', JStr L), (''linkData'', JObj D)]), s)"
  by (simp add: construct_def set_data_def save_def get_data_def js_or_def run_simps field_def)

text \<open>
  Claim C9. In every state, \<^verbatim>\<open>save()\<close> leaves the state unchanged, so a second call
  right after the first returns the same value.
\<close>

theorem save_twice:
  "snd (save s) = s \<and> fst (save (snd (save s))) = fst (save s)"
  by (simp add: save_def get_data_def read_def)

text \<open>
  Claim C7. Assigning \<^verbatim>\<open>{link: x}\<close>, an object with no \<^verbatim>\<open>linkData\<close>, to \<^verbatim>\<open>data\<close> and
  reading \<^verbatim>\<open>data\<close> back yields \<^verbatim>\<open>{link: x, linkData: {}}\<close>, for every string \<open>x\<close> and
  whatever was stored before. In general the setter, given an object, overwrites both
  fields and nothing else: \<^verbatim>\<open>link\<close> becomes \<^verbatim>\<open>data.link || ''\<close> and \<^verbatim>\<open>linkData\<close>
  becomes \<^verbatim>\<open>data.linkData || {}\<close>, where a missing property reads as \<^verbatim>\<open>undefined\<close>.
\<close>

theorem set_data_fills_defaults:
  "and_then (set_data (JObj [(''link'', JStr x)])) (\<lambda>_. get_data) s =
     (Returns (JObj [(''link'', JStr x), (''linkData'', JObj [])]),
      s\<lparr>link := JStr x, linkData := JObj []\<rparr>)
   \<and> set_data (JObj kvs) s =
     (Returns (), s\<lparr>link := js_or (field kvs ''link'') (JStr []),
                     linkData := js_or (field kvs ''linkData'') (JObj [])\<rparr>)
   \<and> set_data (JObj []) s = (Returns (), s\<lparr>link := JStr [], linkData := JObj []\<rparr>)"
  by (simp add: set_data_def get_data_def js_or_def run_simps field_def)

text \<open>
  Claim C10. The constructor needs a data object: with \<^verbatim>\<open>undefined\<close> or \<^verbatim>\<open>null\<close> for
  \<^verbatim>\<open>data\<close> it throws a TypeError, whatever the other arguments are, and no tool comes
  into being. With an object for \<^verbatim>\<open>data\<close> (and for \<^verbatim>\<open>config\<close>) it succeeds, and a field
  the object lacks gets its default, \<^verbatim>\<open>''\<close> for \<^verbatim>\<open>link\<close> and \<^verbatim>\<open>{}\<close> for \<^verbatim>\<open>linkData\<close>.
\<close>

theorem construct_needs_data_object:
  "construct JUndefined config block input = Throws TypeError
   \<and> construct JNull config block input = Throws TypeError
   \<and> (\<exists>s. construct (JObj kvs) (JObj c) block input = Returns s
        \<and> (map_of kvs ''link'' = None \<longrightarrow> link s = JStr [])
        \<and> (map_of kvs ''linkData'' = None \<longrightarrow> linkData s = JObj []))"
proof -
  have "construct v config block input = Throws TypeError" if "v = JUndefined \<or> v = JNull" for v
    using that
    by (auto simp add: construct_def set_data_def run_simps split: outcome.split dest: get_prop_throws)
  then show ?thesis
    by (simp add: construct_def set_data_def run_simps field_def js_or_def)
qed

theorem construct_needs_data_object_witness:
  "construct JUndefined (JObj []) ''cdx-block'' ''cdx-input'' = Throws TypeError
   \<and> construct JNull (JObj []) ''cdx-block'' ''cdx-input'' = Throws TypeError
   \<and> (\<exists>s. construct (JObj []) (JObj []) ''cdx-block'' ''cdx-input'' = Returns s
        \<and> link s = JStr [] \<and> linkData s = JObj [])"
  using construct_needs_data_object [of "JObj []" "''cdx-block''" "''cdx-input''" "[]" "[]"]
  by simp

subsection \<open>Rendering\<close>

text \<open>
  Claim C3. Take a state whose \<^verbatim>\<open>linkData\<close> is an object, with class names from the
  host that the DOM accepts (the block's class may be empty), and, if the object has a
  truthy \<^verbatim>\<open>image\<close>, one whose \<^verbatim>\<open>url\<close> converts to a string. Then \<^verbatim>\<open>render()\<close> returns
  the wrapper holding the container, and the phase follows from whether the object has a
  key. Without keys the container holds the input holder before the preview node, and no
  preview element has been written to. With a key the container holds the preview node
  only, the input holder is not inserted, and the preview is filled from the object: the
  background image, the title and the description if they are truthy, and the link as
  the anchor's text and \<^verbatim>\<open>href\<close>.
\<close>

theorem render_chooses_phase:
  assumes block: "api_styles_block s = [] \<or> class_token (api_styles_block s)"
      and input: "class_token (api_styles_input s)"
      and data: "linkData s = JObj kvs"
      and bg: "truthy (field kvs ''image'') \<Longrightarrow> background_of (field kvs ''image'') = Returns bg"
  shows "\<exists>w s'. render s = (Returns w, s')
     \<and> childNodes w = [Container]
     \<and> map_option childNodes (nodes s' Container) =
         Some (if kvs = [] then [InputHolder, LinkContent] else [LinkContent])
     \<and> map_option childNodes (nodes s' InputHolder) = Some [Progress, Input]
     \<and> map_option childNodes (nodes s' LinkContent) =
         Some [LinkImage, LinkTitle, LinkDescription, LinkText]
     \<and> map_option backgroundImage (nodes s' LinkImage) =
         Some (if truthy (field kvs ''image'') then Some bg else None)
     \<and> map_option innerHTML (nodes s' LinkTitle) =
         Some (if truthy (field kvs ''title'') then Some (field kvs ''title'') else None)
     \<and> map_option innerHTML (nodes s' LinkDescription) =
         Some (if truthy (field kvs ''description'') then Some (field kvs ''description'') else None)
     \<and> map_option innerHTML (nodes s' LinkText) = Some (if kvs = [] then None else Some (link s))
     \<and> map_option href (nodes s' LinkText) = Some (if kvs = [] then None else Some (link s))"
proof -
  obtain w where w: "make ''div'' (ClassName (api_styles_block s)) = Returns w" "childNodes w = []"
    using block by (auto simp add: make_simps)
  show ?thesis
  proof (cases "kvs = []")
    case True
    then show ?thesis
      by (simp add: render_def run_simps w input data class_tokens make_token
        and_then_run [OF makeInputHolder_run] and_then_run [OF prepareLinkPreview_run]
        appendChild_def createElement_def field_def)
  next
    case False
    then show ?thesis
      by (simp add: render_def run_simps w input data class_tokens make_token
        and_then_run [OF makeInputHolder_run] and_then_run [OF prepareLinkPreview_run]
        and_then_run [OF showLinkPreview_run] bg
        appendChild_def createElement_def)
  qed
qed


theorem render_chooses_phase_witness:
  "(\<exists>w s'. render ((blank ''cdx-block'' ''cdx-input'' (JStr []))
          \<lparr>link := JStr ''http://example.com'',
           linkData := JObj [(''title'', JStr ''Example''), (''image'', JObj [(''url'', JStr ''a.png'')])]\<rparr>)
        = (Returns w, s')
     \<and> map_option childNodes (nodes s' Container) = Some [LinkContent]
     \<and> map_option backgroundImage (nodes s' LinkImage) = Some (Some ''url(a.png)'')
     \<and> map_option innerHTML (nodes s' LinkTitle) = Some (Some (JStr ''Example''))
     \<and> map_option innerHTML (nodes s' LinkDescription) = Some None
     \<and> map_option href (nodes s' LinkText) = Some (Some (JStr ''http://example.com'')))
   \<and> (\<exists>w s'. render (blank [] ''cdx-input'' (JStr [])) = (Returns w, s')
     \<and> map_option childNodes (nodes s' Container) = Some [InputHolder, LinkContent]
     \<and> map_option backgroundImage (nodes s' LinkImage) = Some None
     \<and> map_option href (nodes s' LinkText) = Some None)"
  using render_chooses_phase [of "(blank ''cdx-block'' ''cdx-input'' (JStr []))
          \<lparr>link := JStr ''http://example.com'',
           linkData := JObj [(''title'', JStr ''Example''), (''image'', JObj [(''url'', JStr ''a.png'')])]\<rparr>"
          "[(''title'', JStr ''Example''), (''image'', JObj [(''url'', JStr ''a.png'')])]" "''url(a.png)''"]
        render_chooses_phase [of "blank [] ''cdx-input'' (JStr [])" "[]" "[]"]
  by (auto simp add: blank_def class_token_def is_space_def field_def background_of_def)


subsection \<open>The end of a request\<close>

lemma success_flag_returns: "\<exists>ok. success_flag response = Returns ok"
  using get_prop_truthy [of response "''success''"] by (auto simp add: success_flag_def)

lemma onFetch_success:
  assumes "success_flag response = Returns ok" and "truthy ok"
      and "get_prop response ''meta'' = Returns metaData"
  shows "onFetch response s =
     (Returns (), hideProgress (ShowPreview metaData) (s\<lparr>linkData := metaData\<rparr>))"
  using assms by (simp add: onFetch_def run_simps)

lemma onFetch_failure:
  assumes "success_flag response = Returns ok" and "\<not> truthy ok"
  shows "onFetch response s =
     (Returns (),
      hideProgress NoCallback
        (s\<lparr>console := console s @ [FetchingFailed response],
           notifications :=
             notifications s @ [(''Can not get this link data, try another'', ''error'')]\<rparr>))"
  using assms by (simp add: onFetch_def fetchingFailed_def run_simps)

lemma hideProgress_fields:
  "link (hideProgress cb s) = link s"
  "linkData (hideProgress cb s) = linkData s"
  "notifications (hideProgress cb s) = notifications s"
  "console (hideProgress cb s) = console s"
  "requests (hideProgress cb s) = requests s"
  "n \<noteq> Progress \<Longrightarrow> nodes (hideProgress cb s) n = nodes s n"
  "map_option childNodes (nodes (hideProgress cb s) n) = map_option childNodes (nodes s n)"
  by (auto simp add: hideProgress_def split: option.split)

lemma hideProgress_present:
  "nodes s Progress = Some p \<Longrightarrow>
   hideProgress cb s =
     s\<lparr>nodes := (nodes s)(Progress \<mapsto>
            p\<lparr>classList := append_tokens (removeAll progressLoading (classList p)) [progressLoaded]\<rparr>),
       timers := timers s @ [cb]\<rparr>"
  by (simp add: hideProgress_def)

lemma settle_run:
  assumes slots: "nodes t InputHolder = Some ih" "nodes t LinkImage = Some im"
                 "nodes t LinkTitle = Some ti" "nodes t LinkDescription = Some de"
                 "nodes t LinkText = Some a"
      and bg: "truthy (field m ''image'') \<Longrightarrow> background_of (field m ''image'') = Returns bg"
  shows "and_then (remove InputHolder) (\<lambda>_. showLinkPreview (JObj m)) t =
     (Returns (),
      t\<lparr>nodes := (\<lambda>n. map_option (detach InputHolder) (nodes t n))
         (LinkImage \<mapsto> (if truthy (field m ''image'')
                         then (detach InputHolder im)\<lparr>backgroundImage := Some bg\<rparr>
                         else detach InputHolder im),
          LinkTitle \<mapsto> (if truthy (field m ''title'')
                         then (detach InputHolder ti)\<lparr>innerHTML := Some (field m ''title'')\<rparr>
                         else detach InputHolder ti),
          LinkDescription \<mapsto> (if truthy (field m ''description'')
                         then (detach InputHolder de)\<lparr>innerHTML := Some (field m ''description'')\<rparr>
                         else detach InputHolder de),
          LinkText \<mapsto> (detach InputHolder a)\<lparr>innerHTML := Some (link t), href := Some (link t)\<rparr>)\<rparr>)"
proof -
  let ?t = "t\<lparr>nodes := (\<lambda>n. map_option (detach InputHolder) (nodes t n))\<rparr>"
  have "showLinkPreview (JObj m) ?t = (Returns (), ?t\<lparr>nodes := (nodes ?t)
         (LinkImage \<mapsto> (if truthy (field m ''image'')
                         then (detach InputHolder im)\<lparr>backgroundImage := Some bg\<rparr>
                         else detach InputHolder im),
          LinkTitle \<mapsto> (if truthy (field m ''title'')
                         then (detach InputHolder ti)\<lparr>innerHTML := Some (field m ''title'')\<rparr>
                         else detach InputHolder ti),
          LinkDescription \<mapsto> (if truthy (field m ''description'')
                         then (detach InputHolder de)\<lparr>innerHTML := Some (field m ''description'')\<rparr>
                         else detach InputHolder de),
          LinkText \<mapsto> (detach InputHolder a)\<lparr>innerHTML := Some (link ?t), href := Some (link ?t)\<rparr>)\<rparr>)"
    by (rule showLinkPreview_run) (simp_all add: slots bg)
  then show ?thesis
    by (simp add: and_then_remove slots)
qed

text \<open>
  Claim C4. A response whose \<^verbatim>\<open>success\<close> is truthy and whose \<^verbatim>\<open>meta\<close> is an object
  \<open>m\<close> makes \<open>m\<close> the new \<^verbatim>\<open>linkData\<close>, marks the progress label as loaded and starts
  the timer with the preview chained on it; nothing else changes, the input stays. When
  that timer fires in a rendered state \<open>t\<close>, the input holder is removed from every
  element that held it and the preview is filled field by field: the background image,
  from \<^verbatim>\<open>image.url\<close>, only if \<^verbatim>\<open>image\<close> is truthy, the title only if it is truthy, the
  description only if it is truthy (otherwise the element keeps what it had), and the
  anchor's text and \<^verbatim>\<open>href\<close> always, with the link stored at that moment, empty or not.
  No promise is left rejected.
\<close>

theorem successful_fetch_previews:
  assumes ok: "success_flag response = Returns ok" "truthy ok"
      and meta: "get_prop response ''meta'' = Returns (JObj m)"
      and progress: "nodes s Progress = Some p"
      and due: "timers t = ShowPreview (JObj m) # rest"
      and slots: "nodes t InputHolder = Some ih" "nodes t LinkImage = Some im"
                 "nodes t LinkTitle = Some ti" "nodes t LinkDescription = Some de"
                 "nodes t LinkText = Some a"
      and bg: "truthy (field m ''image'') \<Longrightarrow> background_of (field m ''image'') = Returns bg"
  shows "fetch_resolved response s =
       s\<lparr>linkData := JObj m,
         nodes := (nodes s)(Progress \<mapsto>
            p\<lparr>classList := append_tokens (removeAll progressLoading (classList p)) [progressLoaded]\<rparr>),
         timers := timers s @ [ShowPreview (JObj m)]\<rparr>
     \<and> timers (timer_fires t) = rest
     \<and> unhandled (timer_fires t) = unhandled t
     \<and> link (timer_fires t) = link t
     \<and> linkData (timer_fires t) = linkData t
     \<and> (\<forall>n el. nodes (timer_fires t) n = Some el \<longrightarrow> InputHolder \<notin> set (childNodes el))
     \<and> map_option backgroundImage (nodes (timer_fires t) LinkImage) =
         Some (if truthy (field m ''image'') then Some bg else backgroundImage im)
     \<and> map_option innerHTML (nodes (timer_fires t) LinkTitle) =
         Some (if truthy (field m ''title'') then Some (field m ''title'') else innerHTML ti)
     \<and> map_option innerHTML (nodes (timer_fires t) LinkDescription) =
         Some (if truthy (field m ''description'') then Some (field m ''description'')
               else innerHTML de)
     \<and> map_option innerHTML (nodes (timer_fires t) LinkText) = Some (Some (link t))
     \<and> map_option href (nodes (timer_fires t) LinkText) = Some (Some (link t))"
proof -
  have fetch: "fetch_resolved response s =
       s\<lparr>linkData := JObj m,
         nodes := (nodes s)(Progress \<mapsto>
            p\<lparr>classList := append_tokens (removeAll progressLoading (classList p)) [progressLoaded]\<rparr>),
         timers := timers s @ [ShowPreview (JObj m)]\<rparr>"
    by (simp add: fetch_resolved_def onFetch_success [OF ok meta] hideProgress_present progress)
  have slots': "nodes (t\<lparr>timers := rest\<rparr>) InputHolder = Some ih"
      "nodes (t\<lparr>timers := rest\<rparr>) LinkImage = Some im"
      "nodes (t\<lparr>timers := rest\<rparr>) LinkTitle = Some ti"
      "nodes (t\<lparr>timers := rest\<rparr>) LinkDescription = Some de"
      "nodes (t\<lparr>timers := rest\<rparr>) LinkText = Some a"
    by (simp_all add: slots)
  have fire: "timer_fires t =
      snd (and_then (remove InputHolder) (\<lambda>_. showLinkPreview (JObj m)) (t\<lparr>timers := rest\<rparr>))"
    by (simp add: timer_fires_def due settle_run [OF slots' bg])
  show ?thesis
    by (simp add: fetch fire settle_run [OF slots' bg] detach_def) (auto split: if_splits)
qed

theorem successful_fetch_previews_witness:
  "(let response = JObj [(''success'', JNum 1),
                         (''meta'', JObj [(''title'', JStr ''Example''),
                                          (''image'', JObj [(''url'', JStr ''a.png'')])])];
        s = run [Render, Fired Input ''paste'' ''http://example.com'']
              (blank ''cdx-block'' ''cdx-input'' (JObj [(''byUrl'', JStr ''/fetchUrl'')]));
        t = fetch_resolved response s
    in success_flag response = Returns (JNum 1) \<and> truthy (JNum 1)
       \<and> linkData t = JObj [(''title'', JStr ''Example''), (''image'', JObj [(''url'', JStr ''a.png'')])]
       \<and> timers (timer_fires t) = []
       \<and> unhandled (timer_fires t) = []
       \<and> map_option backgroundImage (nodes (timer_fires t) LinkImage) = Some (Some ''url(a.png)'')
       \<and> map_option innerHTML (nodes (timer_fires t) LinkTitle) = Some (Some (JStr ''Example''))
       \<and> map_option innerHTML (nodes (timer_fires t) LinkDescription) = Some None
       \<and> map_option innerHTML (nodes (timer_fires t) LinkText) = Some (Some (JStr ''http://example.com''))
       \<and> map_option href (nodes (timer_fires t) LinkText) = Some (Some (JStr ''http://example.com'')))"
proof -
  define m where "m = [(''title'', JStr ''Example''), (''image'', JObj [(''url'', JStr ''a.png'')])]"
  define response where "response = JObj [(''success'', JNum 1), (''meta'', JObj m)]"
  define s where "s = run [Render, Fired Input ''paste'' ''http://example.com'']
              (blank ''cdx-block'' ''cdx-input'' (JObj [(''byUrl'', JStr ''/fetchUrl'')]))"
  define t where "t = fetch_resolved response s"
  have ok: "success_flag response = Returns (JNum 1)" "truthy (JNum 1)"
    and meta: "get_prop response ''meta'' = Returns (JObj m)"
    by (simp_all add: response_def success_flag_def field_def)
  have "nodes s Progress \<noteq> None" unfolding s_def by code_simp
  then obtain p where p: "nodes s Progress = Some p" by auto
  have due: "timers t = ShowPreview (JObj m) # []"
    unfolding t_def s_def response_def m_def by code_simp
  have "nodes t InputHolder \<noteq> None" "nodes t LinkImage \<noteq> None" "nodes t LinkTitle \<noteq> None"
    "nodes t LinkDescription \<noteq> None" "nodes t LinkText \<noteq> None"
    unfolding t_def s_def response_def m_def by code_simp+
  then obtain ih im ti de a where slots: "nodes t InputHolder = Some ih" "nodes t LinkImage = Some im"
      "nodes t LinkTitle = Some ti" "nodes t LinkDescription = Some de" "nodes t LinkText = Some a"
    by auto
  have bg: "truthy (field m ''image'') \<Longrightarrow> background_of (field m ''image'') = Returns ''url(a.png)''"
    by (simp add: m_def field_def background_of_def)
  have "map_option innerHTML (nodes t LinkDescription) = Some None"
    and el: "link t = JStr ''http://example.com''" "unhandled t = []"
    unfolding t_def s_def response_def m_def by code_simp+
  then have de: "innerHTML de = None" by (simp add: slots)
  have f: "truthy (field m ''image'')" "truthy (field m ''title'')" "\<not> truthy (field m ''description'')"
    "field m ''title'' = JStr ''Example''"
    by (simp_all add: m_def field_def)
  note fetched = successful_fetch_previews [OF ok meta p due slots bg]
  from fetched have ld: "linkData t = JObj m" unfolding t_def by simp
  from fetched el de f ok ld
  have "success_flag response = Returns (JNum 1) \<and> truthy (JNum 1)
       \<and> linkData t = JObj m
       \<and> timers (timer_fires t) = []
       \<and> unhandled (timer_fires t) = []
       \<and> map_option backgroundImage (nodes (timer_fires t) LinkImage) = Some (Some ''url(a.png)'')
       \<and> map_option innerHTML (nodes (timer_fires t) LinkTitle) = Some (Some (JStr ''Example''))
       \<and> map_option innerHTML (nodes (timer_fires t) LinkDescription) = Some None
       \<and> map_option innerHTML (nodes (timer_fires t) LinkText) = Some (Some (JStr ''http://example.com''))
       \<and> map_option href (nodes (timer_fires t) LinkText) = Some (Some (JStr ''http://example.com''))"
    by simp
  then show ?thesis
    by (simp add: Let_def t_def s_def response_def m_def del: run.simps)
qed

text \<open>
  Claim C5. A response that is falsy, or whose \<^verbatim>\<open>success\<close> is falsy or missing, gets
  exactly one notification to the host's notifier, with the message
  \<^verbatim>\<open>Can not get this link data, try another\<close> and the style \<^verbatim>\<open>error\<close>, and one line on
  the console. \<^verbatim>\<open>linkData\<close>, \<^verbatim>\<open>link\<close> and the requests sent stay as they are; no
  element but the progress label changes and every element keeps its children, so the
  input stays where it is and the preview is not written to. The progress label, if
  there is one, is marked as loaded, and the timer started has nothing chained on it:
  when it fires, only the timer is gone.
\<close>

theorem failed_fetch_notifies:
  assumes "success_flag response = Returns ok" and "\<not> truthy ok"
  shows "notifications (fetch_resolved response s) =
           notifications s @ [(''Can not get this link data, try another'', ''error'')]
     \<and> console (fetch_resolved response s) = console s @ [FetchingFailed response]
     \<and> linkData (fetch_resolved response s) = linkData s
     \<and> link (fetch_resolved response s) = link s
     \<and> requests (fetch_resolved response s) = requests s
     \<and> (\<forall>n. n \<noteq> Progress \<longrightarrow> nodes (fetch_resolved response s) n = nodes s n)
     \<and> (\<forall>n. map_option childNodes (nodes (fetch_resolved response s) n) =
              map_option childNodes (nodes s n))
     \<and> (\<forall>p. nodes s Progress = Some p \<longrightarrow>
            nodes (fetch_resolved response s) Progress =
              Some (p\<lparr>classList :=
                        append_tokens (removeAll progressLoading (classList p)) [progressLoaded]\<rparr>)
            \<and> timers (fetch_resolved response s) = timers s @ [NoCallback])
     \<and> (timers t = NoCallback # rest \<longrightarrow> timer_fires t = t\<lparr>timers := rest\<rparr>)"
  by (simp add: fetch_resolved_def onFetch_failure [OF assms] hideProgress_fields
      hideProgress_present timer_fires_def)

theorem failed_fetch_notifies_witness:
  "(let response = JObj [(''success'', JNum 0)];
        s = run [Render, Fired Input ''paste'' ''http://bad.com'']
              (blank ''cdx-block'' ''cdx-input'' (JObj [(''byUrl'', JStr ''/fetchUrl'')]));
        t = fetch_resolved response s
    in success_flag response = Returns (JNum 0) \<and> \<not> truthy (JNum 0)
       \<and> notifications t = [(''Can not get this link data, try another'', ''error'')]
       \<and> linkData t = JObj []
       \<and> link t = JStr ''http://bad.com''
       \<and> map_option childNodes (nodes t Container) = Some [InputHolder, LinkContent]
       \<and> map_option innerHTML (nodes t LinkText) = Some None
       \<and> timers t = [NoCallback]
       \<and> timer_fires t = t\<lparr>timers := []\<rparr>)"
proof -
  define response where "response = JObj [(''success'', JNum 0)]"
  define s where "s = run [Render, Fired Input ''paste'' ''http://bad.com'']
              (blank ''cdx-block'' ''cdx-input'' (JObj [(''byUrl'', JStr ''/fetchUrl'')]))"
  define t where "t = fetch_resolved response s"
  have no: "success_flag response = Returns (JNum 0)" "\<not> truthy (JNum 0)"
    by (simp_all add: response_def success_flag_def field_def)
  have "nodes s Progress \<noteq> None" unfolding s_def by code_simp
  then obtain p where p: "nodes s Progress = Some p" by auto
  have before: "notifications s = []" "linkData s = JObj []" "link s = JStr ''http://bad.com''"
    "map_option childNodes (nodes s Container) = Some [InputHolder, LinkContent]"
    "map_option innerHTML (nodes s LinkText) = Some None" "timers s = []"
    unfolding s_def by code_simp+
  from failed_fetch_notifies [OF no, of s "t" "[]"] p before no
  have "success_flag response = Returns (JNum 0) \<and> \<not> truthy (JNum 0)
       \<and> notifications t = [(''Can not get this link data, try another'', ''error'')]
       \<and> linkData t = JObj []
       \<and> link t = JStr ''http://bad.com''
       \<and> map_option childNodes (nodes t Container) = Some [InputHolder, LinkContent]
       \<and> map_option innerHTML (nodes t LinkText) = Some None
       \<and> timers t = [NoCallback]
       \<and> timer_fires t = t\<lparr>timers := []\<rparr>"
    by (simp add: t_def)
  then show ?thesis
    by (simp add: Let_def t_def s_def response_def del: run.simps)
qed


subsection \<open>Methods that preserve a property\<close>

lemma preserves_ret: "preserves P (ret x)"
  by (simp add: preserves_def ret_def)

lemma preserves_compute: "preserves P (compute r)"
  by (simp add: preserves_def compute_def)

lemma preserves_read: "preserves P (read g)"
  by (simp add: preserves_def read_def)

lemma preserves_modify: "(\<And>s. P s \<Longrightarrow> P (g s)) \<Longrightarrow> preserves P (modify g)"
  by (simp add: preserves_def modify_def)

lemma preserves_assign:
  "(\<And>s. P s \<Longrightarrow> P (s\<lparr>nodes := (nodes s)(n \<mapsto> el)\<rparr>)) \<Longrightarrow> preserves P (assign n el)"
  by (simp add: assign_def preserves_modify)

lemma preserves_update:
  "(\<And>s el. P s \<Longrightarrow> nodes s n = Some el \<Longrightarrow> P (s\<lparr>nodes := (nodes s)(n \<mapsto> f el)\<rparr>)) \<Longrightarrow>
   preserves P (update n f)"
  by (simp add: preserves_def update_def split: option.split)

lemma preserves_insertBefore:
  "(\<And>s el. P s \<Longrightarrow> nodes s p = Some el \<Longrightarrow>
      P (s\<lparr>nodes := (nodes s)(p \<mapsto> el\<lparr>childNodes := insert_before c r (childNodes el)\<rparr>)\<rparr>)) \<Longrightarrow>
   preserves P (insertBefore p c r)"
  by (simp add: preserves_def insertBefore_def split: option.split)

lemma preserves_remove:
  "(\<And>s. P s \<Longrightarrow> P (s\<lparr>nodes := (\<lambda>n. map_option (detach c) (nodes s n))\<rparr>)) \<Longrightarrow>
   preserves P (remove c)"
  by (simp add: preserves_def remove_def split: option.split)

lemma preserves_and_then:
  assumes "preserves P m" and "\<And>s x s'. m s = (Returns x, s') \<Longrightarrow> preserves P (f x)"
  shows "preserves P (and_then m f)"
  unfolding preserves_def
proof (intro allI impI)
  fix s assume s: "P s"
  obtain r s' where m: "m s = (r, s')" by (cases "m s")
  with assms(1) s have s': "P s'" by (auto simp add: preserves_def)
  show "P (snd (and_then m f s))"
  proof (cases r)
    case (Returns x)
    with assms(2) m have "preserves P (f x)" by simp
    with s' show ?thesis by (simp add: and_then_def m Returns preserves_def)
  next
    case (Throws e)
    with s' show ?thesis by (simp add: and_then_def m)
  qed
qed

lemma preserves_if:
  "preserves P m \<Longrightarrow> preserves P m' \<Longrightarrow> preserves P (if b then m else m')"
  by simp

lemmas preserves_intros =
  preserves_and_then preserves_ret preserves_compute preserves_read preserves_if

lemma make_listeners: "make t c = Returns el \<Longrightarrow> listeners el = []"
  by (auto simp add: make_def classList_add_def createElement_def Let_def
      split: class_names.splits outcome.splits if_splits)

lemma compute_result: "compute r s = (Returns x, s') \<Longrightarrow> r = Returns x"
  by (simp add: compute_def)

subsection \<open>Wired states\<close>

lemma wired_cong:
  "listening s' = listening s \<Longrightarrow> config_endpoints s' = config_endpoints s \<Longrightarrow> wired s' = wired s"
  by (simp add: wired_def)

lemma listening_update:
  "nodes s n = Some el \<Longrightarrow> listeners el' = listeners el \<Longrightarrow>
   listening (s\<lparr>nodes := (nodes s)(n \<mapsto> el')\<rparr>) = listening s"
  by (rule ext) (simp add: listening_def)

lemma wired_update:
  "wired s \<Longrightarrow> nodes s n = Some el \<Longrightarrow> listeners el' = listeners el \<Longrightarrow>
   wired (s\<lparr>nodes := (nodes s)(n \<mapsto> el')\<rparr>)"
  using wired_cong [of "s\<lparr>nodes := (nodes s)(n \<mapsto> el')\<rparr>" s] listening_update [of s n el el']
  by simp

lemma wiredD:
  "wired s \<Longrightarrow> nodes s n = Some el \<Longrightarrow> listeners el = (if n = Input then [''paste''] else [])"
  by (auto simp add: wired_def listening_def dest!: spec [of _ n])

lemma wiredI:
  assumes "\<And>n el. nodes s n = Some el \<Longrightarrow> listeners el = (if n = Input then [''paste''] else [])"
      and "nodes s Input \<noteq> None \<Longrightarrow> nodes s Progress \<noteq> None"
      and "config_endpoints s \<noteq> JUndefined" "config_endpoints s \<noteq> JNull"
  shows "wired s"
  unfolding wired_def listening_def
proof (intro conjI allI)
  fix n show "map_option listeners (nodes s n) = None \<or>
         map_option listeners (nodes s n) = Some (if n = Input then [''paste''] else [])"
    using assms(1) [of n] by (cases "nodes s n") auto
next
  show "map_option listeners (nodes s Input) \<noteq> None \<longrightarrow> map_option listeners (nodes s Progress) \<noteq> None"
    using assms(2) by auto
qed (rule assms)+

lemma wired_endpoints: "wired s \<Longrightarrow> config_endpoints s \<noteq> JUndefined \<and> config_endpoints s \<noteq> JNull"
  by (simp add: wired_def)

lemma wired_progress: "wired s \<Longrightarrow> nodes s Input = Some el \<Longrightarrow> \<exists>p. nodes s Progress = Some p"
  by (auto simp add: wired_def listening_def)

lemma wired_assign:
  assumes "wired s" and "listeners el = []" and "n \<noteq> Input"
  shows "wired (s\<lparr>nodes := (nodes s)(n \<mapsto> el)\<rparr>)"
proof (rule wiredI)
  fix m e assume "nodes (s\<lparr>nodes := (nodes s)(n \<mapsto> el)\<rparr>) m = Some e"
  then show "listeners e = (if m = Input then [''paste''] else [])"
    using assms wiredD [OF assms(1), of m e] by (auto split: if_splits)
next
  assume "nodes (s\<lparr>nodes := (nodes s)(n \<mapsto> el)\<rparr>) Input \<noteq> None"
  then show "nodes (s\<lparr>nodes := (nodes s)(n \<mapsto> el)\<rparr>) Progress \<noteq> None"
    using assms wired_progress [OF assms(1)] by (auto split: if_splits)
qed (use wired_endpoints [OF assms(1)] in simp_all)

lemma wired_input:
  assumes "wired s" and "listeners el = [''paste'']" and "nodes s Progress = Some p"
  shows "wired (s\<lparr>nodes := (nodes s)(Input \<mapsto> el)\<rparr>)"
proof (rule wiredI)
  fix m e assume "nodes (s\<lparr>nodes := (nodes s)(Input \<mapsto> el)\<rparr>) m = Some e"
  then show "listeners e = (if m = Input then [''paste''] else [])"
    using assms wiredD [OF assms(1), of m e] by (auto split: if_splits)
qed (use assms wired_endpoints [OF assms(1)] in simp_all)

lemma preserves_option:
  "preserves P m \<Longrightarrow> (\<And>x. preserves P (f x)) \<Longrightarrow>
   preserves P (case w of None \<Rightarrow> m | Some x \<Rightarrow> f x)"
  by (cases w) simp_all

lemma wired_assign_node:
  "listeners el = [] \<Longrightarrow> n \<noteq> Input \<Longrightarrow> preserves wired (assign n el)"
  by (rule preserves_assign) (rule wired_assign)

lemma wired_update_node:
  "(\<And>el. listeners (f el) = listeners el) \<Longrightarrow> preserves wired (update n f)"
  by (rule preserves_update) (erule (1) wired_update, simp)

lemma wired_insertBefore: "preserves wired (insertBefore p c r)"
  by (rule preserves_insertBefore) (erule (1) wired_update, simp)

lemma wired_showLinkPreview: "preserves wired (showLinkPreview meta)"
  unfolding showLinkPreview_def
  by (intro preserves_intros wired_update_node) simp_all

lemma wired_makeInputHolder: "preserves wired makeInputHolder"
  unfolding preserves_def
proof (intro allI impI)
  fix s assume s: "wired s"
  obtain p where p: "make ''label'' (ClassName ''link-tool__progress'') = Returns p" "listeners p = []"
    by (simp add: make_simps)
  have sp: "wired (s\<lparr>nodes := (nodes s)(Progress \<mapsto> p)\<rparr>)"
    using s p by (simp add: wired_assign)
  show "wired (snd (makeInputHolder s))"
  proof (cases "make ''input'' (ClassNames [api_styles_input s, ''link-tool__input''])")
    case (Throws e)
    then show ?thesis using sp
      by (simp add: makeInputHolder_def run_simps make_simps p)
  next
    case (Returns i)
    then have "listeners i = []" by (rule make_listeners)
    then have "wired (s\<lparr>nodes := (nodes s)(Progress \<mapsto> p)\<rparr>
        \<lparr>nodes := (nodes (s\<lparr>nodes := (nodes s)(Progress \<mapsto> p)\<rparr>))
            (Input \<mapsto> i\<lparr>placeholder := Some ''Paste Link...'', listeners := [''paste'']\<rparr>)\<rparr>)"
      by (intro wired_input [OF sp]) simp_all
    then show ?thesis using Returns \<open>listeners i = []\<close>
      by (simp add: makeInputHolder_def run_simps make_simps p)
  qed
qed

lemma makeInputHolder_listeners:
  "makeInputHolder s = (Returns h, s') \<Longrightarrow> listeners h = []"
  by (cases "make ''input'' (ClassNames [api_styles_input s, ''link-tool__input''])")
     (auto simp add: makeInputHolder_def run_simps make_simps)

lemma wired_prepareLinkPreview: "preserves wired prepareLinkPreview"
  unfolding prepareLinkPreview_def
  by (intro preserves_intros wired_assign_node)
     (auto dest!: compute_result make_listeners)

lemma prepareLinkPreview_listeners:
  "prepareLinkPreview s = (Returns h, s') \<Longrightarrow> listeners h = []"
  by (auto simp add: prepareLinkPreview_run createElement_def)

lemma wired_render: "preserves wired render"
  unfolding render_def
  by (intro preserves_intros preserves_option wired_assign_node wired_update_node wired_insertBefore
        wired_makeInputHolder wired_prepareLinkPreview wired_showLinkPreview)
     (auto dest!: compute_result make_listeners makeInputHolder_listeners prepareLinkPreview_listeners
        simp add: appendChild_def)

lemma wired_fields:
  "wired (s\<lparr>link := l\<rparr>) = wired s"
  "wired (s\<lparr>linkData := d\<rparr>) = wired s"
  "wired (s\<lparr>console := c\<rparr>) = wired s"
  "wired (s\<lparr>notifications := ns\<rparr>) = wired s"
  "wired (s\<lparr>requests := rs\<rparr>) = wired s"
  "wired (s\<lparr>timers := ts\<rparr>) = wired s"
  "wired (s\<lparr>unhandled := us\<rparr>) = wired s"
  by (simp_all add: wired_def listening_def)

lemma wired_set_data: "preserves wired (set_data d)"
  unfolding set_data_def
  by (intro preserves_intros preserves_modify) (simp_all add: wired_fields)

lemma wired_save: "preserves wired save"
  by (simp add: save_def get_data_def preserves_read)

lemma wired_uploadByUrl: "preserves wired (uploadByUrl url)"
  unfolding uploadByUrl_def showProgress_def
  by (intro preserves_intros preserves_modify wired_update_node) (simp_all add: wired_fields)

lemma wired_dispatch: "preserves wired (dispatch n ev text)"
  using wired_uploadByUrl [of "text"]
  by (simp add: preserves_def dispatch_def split: option.split)

lemma wired_hideProgress: "wired s \<Longrightarrow> wired (hideProgress cb s)"
  by (auto simp add: hideProgress_def wired_fields split: option.split elim!: wired_update)

lemma wired_onFetch: "preserves wired (onFetch response)"
  unfolding onFetch_def fetchingFailed_def
  by (intro preserves_intros preserves_modify) (simp_all add: wired_fields wired_hideProgress)

lemma wired_fetch_resolved: "wired s \<Longrightarrow> wired (fetch_resolved response s)"
  using wired_onFetch [of response]
  by (auto simp add: preserves_def fetch_resolved_def wired_fields split: prod.split outcome.split
      dest!: spec [of _ s])

lemma wired_remove: "preserves wired (remove c)"
proof (rule preserves_remove)
  fix s assume "wired s"
  moreover have "listening (s\<lparr>nodes := (\<lambda>n. map_option (detach c) (nodes s n))\<rparr>) = listening s"
  proof
    fix n show "listening (s\<lparr>nodes := (\<lambda>n. map_option (detach c) (nodes s n))\<rparr>) n = listening s n"
      by (cases "nodes s n") (simp_all add: listening_def detach_def)
  qed
  ultimately show "wired (s\<lparr>nodes := (\<lambda>n. map_option (detach c) (nodes s n))\<rparr>)"
    using wired_cong [of "s\<lparr>nodes := (\<lambda>n. map_option (detach c) (nodes s n))\<rparr>" s] by simp
qed

lemma wired_timer_fires: "wired s \<Longrightarrow> wired (timer_fires s)"
proof -
  assume s: "wired s"
  have settle: "wired (snd (and_then (remove InputHolder) (\<lambda>_. showLinkPreview metaData) (s\<lparr>timers := rest\<rparr>)))"
    for metaData rest
  proof -
    have "preserves wired (and_then (remove InputHolder) (\<lambda>_. showLinkPreview metaData))"
      by (intro preserves_intros wired_remove wired_showLinkPreview)
    then show ?thesis using s by (simp add: preserves_def wired_fields)
  qed
  show ?thesis
  proof (cases "timers s")
    case Nil
    then show ?thesis using s by (simp add: timer_fires_def)
  next
    case (Cons cb rest)
    show ?thesis
    proof (cases cb)
      case NoCallback
      then show ?thesis using s Cons by (simp add: timer_fires_def wired_fields)
    next
      case (ShowPreview metaData)
      then show ?thesis using settle [of metaData rest] Cons
        by (auto simp add: timer_fires_def wired_fields split: prod.split outcome.split)
    qed
  qed
qed

lemma wired_step: "wired s \<Longrightarrow> wired (step e s)"
  using wired_render wired_set_data wired_save wired_dispatch
  by (cases e) (simp_all add: preserves_def wired_fetch_resolved wired_timer_fires fetch_rejected_def wired_fields)

lemma wired_run: "wired s \<Longrightarrow> wired (run evs s)"
  by (induction evs arbitrary: s) (simp_all add: wired_step)

lemma js_or_not_nullish: "js_or v (JStr []) \<noteq> JUndefined \<and> js_or v (JStr []) \<noteq> JNull"
  by (cases v) (auto simp add: js_or_def)

lemma wired_blank: "e \<noteq> JUndefined \<Longrightarrow> e \<noteq> JNull \<Longrightarrow> wired (blank block input e)"
  by (simp add: wired_def listening_def blank_def)

lemma preservesD: "preserves P m \<Longrightarrow> P s \<Longrightarrow> P (snd (m s))"
  by (simp add: preserves_def)

lemma wired_construct: "construct d config block input = Returns s \<Longrightarrow> wired s"
proof -
  assume c: "construct d config block input = Returns s"
  show ?thesis
  proof (cases "get_prop config ''endpoints''")
    case (Throws e)
    then show ?thesis using c by (simp add: construct_def)
  next
    case (Returns e)
    have "wired (snd (set_data d (blank block input (js_or e (JStr [])))))"
      using js_or_not_nullish [of e]
      by (intro preservesD [OF wired_set_data] wired_blank) simp_all
    moreover have "s = snd (set_data d (blank block input (js_or e (JStr []))))"
      using c Returns by (simp add: construct_def split: prod.splits outcome.splits)
    ultimately show ?thesis by simp
  qed
qed

subsection \<open>What sends a request\<close>

lemma requests_render: "preserves (\<lambda>s. requests s = r) render"
  unfolding render_def makeInputHolder_def prepareLinkPreview_def showLinkPreview_def
  by (intro preserves_intros preserves_option preserves_assign preserves_update preserves_insertBefore)
     simp_all

lemma requests_set_data: "preserves (\<lambda>s. requests s = r) (set_data d)"
  unfolding set_data_def
  by (intro preserves_intros preserves_modify) simp_all

lemma requests_hideProgress: "requests (hideProgress cb s) = requests s"
  by (simp add: hideProgress_def split: option.split)

lemma requests_onFetch: "preserves (\<lambda>s. requests s = r) (onFetch response)"
  unfolding onFetch_def fetchingFailed_def
  by (intro preserves_intros preserves_modify) (simp_all add: requests_hideProgress)

lemma requests_settle:
  "preserves (\<lambda>s. requests s = r) (and_then (remove InputHolder) (\<lambda>_. showLinkPreview metaData))"
  unfolding showLinkPreview_def
  by (intro preserves_intros preserves_remove preserves_update) simp_all

lemma requests_fetch_resolved: "requests (fetch_resolved response s) = requests s"
  using preservesD [OF requests_onFetch, of s "requests s" response]
  by (simp add: fetch_resolved_def split: prod.split outcome.split) auto

lemma requests_timer_fires: "requests (timer_fires s) = requests s"
proof (cases "timers s")
  case Nil
  then show ?thesis by (simp add: timer_fires_def)
next
  case (Cons cb rest)
  show ?thesis
  proof (cases cb)
    case NoCallback
    then show ?thesis using Cons by (simp add: timer_fires_def)
  next
    case (ShowPreview metaData)
    then show ?thesis
      using Cons preservesD [OF requests_settle, of "s\<lparr>timers := rest\<rparr>" "requests s" metaData]
      by (auto simp add: timer_fires_def split: prod.split outcome.split)
  qed
qed

lemma only_paste_uploads:
  assumes "wired s" and "requests (step e s) \<noteq> requests s"
  shows "\<exists>t. e = Fired Input ''paste'' t"
proof (cases e)
  case Render
  then show ?thesis using assms(2) preservesD [OF requests_render, of s "requests s"] by simp
next
  case (SetData d)
  then show ?thesis using assms(2) preservesD [OF requests_set_data, of s "requests s" d] by simp
next
  case Save
  then show ?thesis using assms(2) by (simp add: save_def get_data_def read_def)
next
  case (Fired n ev t)
  show ?thesis
  proof (cases "nodes s n")
    case None
    then show ?thesis using assms(2) Fired by (simp add: dispatch_def)
  next
    case (Some el)
    then show ?thesis using assms(2) Fired wiredD [OF assms(1) Some]
      by (auto simp add: dispatch_def split: if_splits)
  qed
next
  case (Resolved response)
  then show ?thesis using assms(2) by (simp add: requests_fetch_resolved)
next
  case (Rejected err)
  then show ?thesis using assms(2) by (simp add: fetch_rejected_def)
next
  case TimerFired
  then show ?thesis using assms(2) by (simp add: requests_timer_fires)
qed

lemma uploadByUrl_run:
  assumes "nodes s Progress = Some p" and "get_prop (config_endpoints s) ''byUrl'' = Returns byUrl"
  shows "uploadByUrl url s =
     (Returns (),
      s\<lparr>nodes := (nodes s)(Progress \<mapsto> p\<lparr>classList := append_tokens (classList p) [progressLoading]\<rparr>),
        link := JStr url, requests := requests s @ [(byUrl, url)]\<rparr>)"
  using assms by (simp add: uploadByUrl_def showProgress_def run_simps)

lemma uploadByUrl_no_progress:
  "nodes s Progress = None \<Longrightarrow> uploadByUrl url s = (Throws TypeError, s)"
  by (simp add: uploadByUrl_def showProgress_def run_simps)

lemma get_prop_not_nullish: "v \<noteq> JUndefined \<Longrightarrow> v \<noteq> JNull \<Longrightarrow> \<exists>x. get_prop v k = Returns x"
  by (cases v) auto

text \<open>
  Claim C8. Let the tool have been constructed and any sequence of events have happened,
  and let there be an input (the tool has been rendered). Then there is a progress
  label, and a \<^verbatim>\<open>paste\<close> event at the input is handled in one step, without a timer or a
  promise in between: the progress label gets the loading class, the clipboard's text
  becomes the link, and one request for that text is sent to \<^verbatim>\<open>config.endpoints.byUrl\<close>.
  The loading class comes first: in any state \<open>u\<close> without a progress label,
  \<^verbatim>\<open>uploadByUrl\<close> throws before it stores the link or sends anything. And whatever event
  \<open>e\<close> happens next, if it sends a request, it is a \<^verbatim>\<open>paste\<close> event at the input.
\<close>

theorem paste_uploads:
  assumes made: "construct d config block input = Returns s0"
      and s: "s = run evs s0"
      and rendered: "nodes s Input = Some el"
  shows "\<exists>p byUrl. nodes s Progress = Some p
      \<and> get_prop (config_endpoints s) ''byUrl'' = Returns byUrl
      \<and> dispatch Input ''paste'' text s =
          (Returns (),
           s\<lparr>nodes := (nodes s)(Progress \<mapsto>
                  p\<lparr>classList := append_tokens (classList p) [progressLoading]\<rparr>),
             link := JStr text, requests := requests s @ [(byUrl, text)]\<rparr>)
      \<and> (requests (step e s) \<noteq> requests s \<longrightarrow> (\<exists>t. e = Fired Input ''paste'' t))
      \<and> (nodes u Progress = None \<longrightarrow> uploadByUrl text u = (Throws TypeError, u))"
proof -
  have w: "wired s" using made s by (simp add: wired_construct wired_run)
  obtain p where p: "nodes s Progress = Some p" using wired_progress [OF w rendered] by auto
  obtain byUrl where b: "get_prop (config_endpoints s) ''byUrl'' = Returns byUrl"
    using get_prop_not_nullish [of "config_endpoints s" "''byUrl''"] wired_endpoints [OF w] by auto
  have l: "''paste'' \<in> set (listeners el)" using wiredD [OF w rendered] by simp
  show ?thesis
    using only_paste_uploads [OF w, of e]
    by (simp add: p b dispatch_def rendered l uploadByUrl_run [OF p b] uploadByUrl_no_progress)
qed

theorem paste_uploads_witness:
  "(let s0 = blank ''cdx-block'' ''cdx-input'' (JObj [(''byUrl'', JStr ''/fetchUrl'')]);
        s = run [Render] s0;
        s' = snd (dispatch Input ''paste'' ''http://example.com'' s)
    in construct (JObj []) (JObj [(''endpoints'', JObj [(''byUrl'', JStr ''/fetchUrl'')])])
         ''cdx-block'' ''cdx-input'' = Returns s0
       \<and> nodes s Input \<noteq> None
       \<and> fst (dispatch Input ''paste'' ''http://example.com'' s) = Returns ()
       \<and> link s' = JStr ''http://example.com''
       \<and> requests s' = [(JStr ''/fetchUrl'', ''http://example.com'')]
       \<and> map_option classList (nodes s' Progress) =
           Some [''link-tool__progress'', ''link-tool__progress--loading'']
       \<and> timers s' = []
       \<and> requests (step (Fired Input ''keydown'' ''h'') s) = requests s)"
proof -
  define s0 where "s0 = blank ''cdx-block'' ''cdx-input'' (JObj [(''byUrl'', JStr ''/fetchUrl'')])"
  define s where "s = run [Render] s0"
  have made: "construct (JObj []) (JObj [(''endpoints'', JObj [(''byUrl'', JStr ''/fetchUrl'')])])
         ''cdx-block'' ''cdx-input'' = Returns s0"
    by (simp add: construct_def set_data_def run_simps js_or_def field_def s0_def blank_def)
  have input: "nodes s Input \<noteq> None" unfolding s_def s0_def by code_simp
  then obtain el where el: "nodes s Input = Some el" by auto
  have before: "map_option classList (nodes s Progress) = Some [''link-tool__progress'']"
    "config_endpoints s = JObj [(''byUrl'', JStr ''/fetchUrl'')]" "requests s = []" "timers s = []"
    unfolding s_def s0_def by code_simp+
  from paste_uploads [OF made s_def el, of "''http://example.com''" "Fired Input ''keydown'' ''h''"]
  obtain p byUrl where p: "nodes s Progress = Some p"
    and b: "get_prop (config_endpoints s) ''byUrl'' = Returns byUrl"
    and d: "dispatch Input ''paste'' ''http://example.com'' s =
          (Returns (),
           s\<lparr>nodes := (nodes s)(Progress \<mapsto>
                  p\<lparr>classList := append_tokens (classList p) [progressLoading]\<rparr>),
             link := JStr ''http://example.com'',
             requests := requests s @ [(byUrl, ''http://example.com'')]\<rparr>)"
    and q: "requests (step (Fired Input ''keydown'' ''h'') s) \<noteq> requests s \<longrightarrow>
            (\<exists>t. Fired Input ''keydown'' ''h'' = Fired Input ''paste'' t)"
    by blast
  from q have quiet: "requests (step (Fired Input ''keydown'' ''h'') s) = requests s" by auto
  from b before have byUrl: "byUrl = JStr ''/fetchUrl''" by (simp add: field_def)
  from p before have cl: "classList p = [''link-tool__progress'']" by simp
  have "construct (JObj []) (JObj [(''endpoints'', JObj [(''byUrl'', JStr ''/fetchUrl'')])])
         ''cdx-block'' ''cdx-input'' = Returns s0
       \<and> nodes s Input \<noteq> None
       \<and> fst (dispatch Input ''paste'' ''http://example.com'' s) = Returns ()
       \<and> link (snd (dispatch Input ''paste'' ''http://example.com'' s)) = JStr ''http://example.com''
       \<and> requests (snd (dispatch Input ''paste'' ''http://example.com'' s)) =
           [(JStr ''/fetchUrl'', ''http://example.com'')]
       \<and> map_option classList (nodes (snd (dispatch Input ''paste'' ''http://example.com'' s)) Progress) =
           Some [''link-tool__progress'', ''link-tool__progress--loading'']
       \<and> timers (snd (dispatch Input ''paste'' ''http://example.com'' s)) = []
       \<and> requests (step (Fired Input ''keydown'' ''h'') s) = requests s"
    using made input quiet before by (simp add: d byUrl cl progressLoading_def)
  then show ?thesis
    by (simp add: Let_def s_def s0_def del: run.simps step.simps)
qed

subsection \<open>Two sequences of events\<close>

text \<open>
  Claim C1 does not hold of the code. The tool is constructed with empty data, rendered,
  and a link is pasted; the request is answered with
  \<^verbatim>\<open>{success: 1, linkData: {title: 'Example'}}\<close>, a response of the format the file
  documents (\<^verbatim>\<open>UploadResponseFormat\<close> names the field \<^verbatim>\<open>linkData\<close>), which has no
  \<^verbatim>\<open>meta\<close>. \<^verbatim>\<open>onFetch\<close> stores \<^verbatim>\<open>response.meta\<close>, so \<^verbatim>\<open>linkData\<close> is \<^verbatim>\<open>undefined\<close>,
  not an object. When the timer fires, the input holder is removed and
  \<^verbatim>\<open>showLinkPreview(undefined)\<close> throws a TypeError that nobody handles: the block shows
  neither the input nor a preview. \<^verbatim>\<open>save()\<close> then returns \<^verbatim>\<open>undefined\<close> for
  \<^verbatim>\<open>linkData\<close>, and \<^verbatim>\<open>render()\<close> throws a TypeError at \<^verbatim>\<open>Object.keys\<close>.
\<close>

theorem success_without_meta_drops_linkData:
  "(case construct (JObj []) (JObj [(''endpoints'', JObj [(''byUrl'', JStr ''/fetchUrl'')])])
           ''cdx-block'' ''cdx-input'' of
      Throws e \<Rightarrow> False
    | Returns s0 \<Rightarrow>
       (let s = run [Render, Fired Input ''paste'' ''http://example.com'',
                     Resolved (JObj [(''success'', JNum 1),
                                     (''linkData'', JObj [(''title'', JStr ''Example'')])])] s0;
            t = run [TimerFired] s
        in linkData s = JUndefined
           \<and> link s = JStr ''http://example.com''
           \<and> timers s = [ShowPreview JUndefined]
           \<and> unhandled t = [TypeError]
           \<and> map_option childNodes (nodes t Container) = Some [LinkContent]
           \<and> map_option innerHTML (nodes t LinkText) = Some None
           \<and> fst (save t) =
               Returns (JObj [(''link'', JStr ''http://example.com''), (''linkData'', JUndefined)])
           \<and> fst (render t) = Throws TypeError))"
  by code_simp

text \<open>
  Claim C6 does not hold of the code either. The tool is constructed, rendered, a link is
  pasted and the request is rejected with an error. The handler of \<^verbatim>\<open>catch\<close> writes the
  error to the console and does nothing else: no exception leaves the tool, no preview is
  rendered and the input stays, but the progress label keeps the loading class that
  \<^verbatim>\<open>showProgress\<close> gave it and never gets the loaded one, no timer is started and the
  user is not notified. After a response with \<^verbatim>\<open>success: 0\<close> in place of the error,
  \<^verbatim>\<open>fetchingFailed\<close> takes the loading class away.
\<close>

theorem rejected_fetch_leaves_progress_loading:
  "(case construct (JObj []) (JObj [(''endpoints'', JObj [(''byUrl'', JStr ''/fetchUrl'')])])
           ''cdx-block'' ''cdx-input'' of
      Throws e \<Rightarrow> False
    | Returns s0 \<Rightarrow>
       (let s = run [Render, Fired Input ''paste'' ''http://example.com''] s0;
            t = run [Rejected (JStr ''Network Error'')] s;
            t' = run [Resolved (JObj [(''success'', JNum 0)])] s
        in map_option classList (nodes t Progress) =
             Some [''link-tool__progress'', ''link-tool__progress--loading'']
           \<and> timers t = [] \<and> notifications t = [] \<and> unhandled t = []
           \<and> console t = [ErrorLogged (Rejection (JStr ''Network Error''))]
           \<and> map_option childNodes (nodes t Container) = Some [InputHolder, LinkContent]
           \<and> map_option innerHTML (nodes t LinkText) = Some None
           \<and> map_option classList (nodes t' Progress) =
             Some [''link-tool__progress'', ''link-tool__progress--loaded'']))"
  by code_simp

end
